theory Spec2Isabelle
  imports Main
begin

section \<open>The zone database tables of \<open>inline_zone_info.py\<close>\<close>

text \<open>
  \<open>InlineZoneInfo\<close> turns the two tables of the data compiler (\<open>zones_map\<close>,
  \<open>policies_map\<close>) into the \<open>zone_infos\<close> and \<open>zone_policies\<close> maps.
  Python integers are unbounded, hence \<open>int\<close>; Python strings are \<open>string\<close>.

  The input tables hold the compiler's rule and era dictionaries. Their type
  declarations live in the \<open>acetimetools\<close> package; the records below carry the keys
  that \<open>inline_zone_info.py\<close> reads from them.
\<close>

record ZoneRuleRaw =
  from_year :: int
  to_year :: int
  in_month :: int
  on_day_of_week :: int
  on_day_of_month :: int
  at_seconds_truncated :: int
  at_time_suffix :: string
  delta_seconds_truncated :: int
  letter :: string

record ZoneEraRaw =
  rules :: string
  offset_seconds_truncated :: int
  rules_delta_seconds_truncated :: int
  format :: string
  until_year :: int
  until_month :: int
  until_day :: int
  until_seconds_truncated :: int
  until_time_suffix :: string

text \<open>
  A Python \<open>dict\<close> iterates in insertion order and \<open>items()\<close> yields each key once:
  the input tables are association lists, read front to back.
\<close>

type_synonym ZonesMap = "(string \<times> ZoneEraRaw list) list"
type_synonym PoliciesMap = "(string \<times> ZoneRuleRaw list) list"

text \<open>The \<open>TypedDict\<close> declarations of the generated tables.\<close>

record ZoneRule =
  from_year :: int
  to_year :: int
  in_month :: int
  on_day_of_week :: int
  on_day_of_month :: int
  at_seconds :: int
  at_time_suffix :: string
  delta_seconds :: int
  letter :: string

record ZonePolicy =
  name :: string
  rules :: "ZoneRule list"

type_synonym ZonePolicyMap = "string \<rightharpoonup> ZonePolicy"

text \<open>
  \<open>zone_policy\<close> is declared \<open>Union[ZonePolicy, str]\<close>: either a string or (a reference
  to) a policy dictionary.
\<close>

datatype zone_policy_value = Str string | Policy ZonePolicy

record ZoneEra =
  offset_seconds :: int
  zone_policy :: zone_policy_value
  rules_delta_seconds :: int
  format :: string
  until_year :: int
  until_month :: int
  until_day :: int
  until_seconds :: int
  until_time_suffix :: string

record ZoneInfo =
  name :: string
  eras :: "ZoneEra list"

type_synonym ZoneInfoMap = "string \<rightharpoonup> ZoneInfo"

text \<open>
  The object: the two input tables and the two maps under construction. The constructor
  stores the inputs and starts both maps empty.
\<close>

record InlineZoneInfo =
  zones_map :: ZonesMap
  policies_map :: PoliciesMap
  zone_infos :: ZoneInfoMap
  zone_policies :: ZonePolicyMap

definition InlineZoneInfo_init :: "ZonesMap \<Rightarrow> PoliciesMap \<Rightarrow> InlineZoneInfo" where
  "InlineZoneInfo_init zm pm =
     \<lparr>zones_map = zm, policies_map = pm, zone_infos = Map.empty, zone_policies = Map.empty\<rparr>"

text \<open>A failed dictionary lookup raises \<open>KeyError\<close> with the missing key.\<close>

datatype error = KeyError string

subsection \<open>\<open>_generate_policies\<close>\<close>

text \<open>The dictionary literal appended for one rule.\<close>

definition ZoneRule_of :: "ZoneRuleRaw \<Rightarrow> ZoneRule" where
  "ZoneRule_of rule =
     \<lparr>ZoneRule.from_year = ZoneRuleRaw.from_year rule,
      ZoneRule.to_year = ZoneRuleRaw.to_year rule,
      ZoneRule.in_month = ZoneRuleRaw.in_month rule,
      ZoneRule.on_day_of_week = ZoneRuleRaw.on_day_of_week rule,
      ZoneRule.on_day_of_month = ZoneRuleRaw.on_day_of_month rule,
      ZoneRule.at_seconds = at_seconds_truncated rule,
      ZoneRule.at_time_suffix = ZoneRuleRaw.at_time_suffix rule,
      ZoneRule.delta_seconds = delta_seconds_truncated rule,
      ZoneRule.letter = ZoneRuleRaw.letter rule\<rparr>"

text \<open>The inner loop: \<open>policy_rules\<close> starts empty and grows by one entry per rule.\<close>

fun policy_rules_loop :: "ZoneRuleRaw list \<Rightarrow> ZoneRule list \<Rightarrow> ZoneRule list" where
  "policy_rules_loop [] policy_rules = policy_rules"
| "policy_rules_loop (rule # rest) policy_rules =
     policy_rules_loop rest (policy_rules @ [ZoneRule_of rule])"

text \<open>
  The outer loop over \<open>policies_map.items()\<close>. \<open>normalize_name\<close> is imported from
  \<open>acetimetools.transformer\<close>; it is a parameter of the model. A later entry whose
  normalized name equals an earlier one overwrites it. (Variables whose name is also a
  key of a record carry a prime.)
\<close>

fun generate_policies_loop ::
  "(string \<Rightarrow> string) \<Rightarrow> PoliciesMap \<Rightarrow> ZonePolicyMap \<Rightarrow> ZonePolicyMap" where
  "generate_policies_loop normalize_name [] zp = zp"
| "generate_policies_loop normalize_name ((name', rules') # rest) zp =
     (let policy_rules = policy_rules_loop rules' [];
          normalized_name = normalize_name name'
      in generate_policies_loop normalize_name rest
           (zp(normalized_name \<mapsto>
                 \<lparr>ZonePolicy.name = name', ZonePolicy.rules = policy_rules\<rparr>)))"

definition generate_policies :: "(string \<Rightarrow> string) \<Rightarrow> InlineZoneInfo \<Rightarrow> InlineZoneInfo" where
  "generate_policies normalize_name self =
     self\<lparr>zone_policies :=
            generate_policies_loop normalize_name (policies_map self) (zone_policies self)\<rparr>"

subsection \<open>\<open>_generate_infos\<close>\<close>

text \<open>
  The choice of \<open>zone_policy\<close> for one era: the string itself when it is \<open>'-'\<close> or
  \<open>':'\<close>, the entry of \<open>zone_policies\<close> under the normalized name otherwise, and
  \<open>KeyError\<close> when there is none.
\<close>

definition lookup_zone_policy ::
  "(string \<Rightarrow> string) \<Rightarrow> ZonePolicyMap \<Rightarrow> ZoneEraRaw \<Rightarrow> error + zone_policy_value" where
  "lookup_zone_policy normalize_name zp era =
     (let policy_name = ZoneEraRaw.rules era
      in if policy_name \<in> set [''-'', '':''] then Inr (Str policy_name)
         else (let policy_name = normalize_name policy_name
               in case zp policy_name of
                    None \<Rightarrow> Inl (KeyError policy_name)
                  | Some p \<Rightarrow> Inr (Policy p)))"

text \<open>The dictionary literal appended for one era.\<close>

definition ZoneEra_of :: "ZoneEraRaw \<Rightarrow> zone_policy_value \<Rightarrow> ZoneEra" where
  "ZoneEra_of era zpol =
     \<lparr>offset_seconds = offset_seconds_truncated era,
      zone_policy = zpol,
      rules_delta_seconds = rules_delta_seconds_truncated era,
      ZoneEra.format = ZoneEraRaw.format era,
      ZoneEra.until_year = ZoneEraRaw.until_year era,
      ZoneEra.until_month = ZoneEraRaw.until_month era,
      ZoneEra.until_day = ZoneEraRaw.until_day era,
      until_seconds = until_seconds_truncated era,
      ZoneEra.until_time_suffix = ZoneEraRaw.until_time_suffix era\<rparr>"

fun zone_eras_loop ::
  "(string \<Rightarrow> string) \<Rightarrow> ZonePolicyMap \<Rightarrow> ZoneEraRaw list \<Rightarrow> ZoneEra list
     \<Rightarrow> error + ZoneEra list" where
  "zone_eras_loop normalize_name zp [] zone_eras = Inr zone_eras"
| "zone_eras_loop normalize_name zp (era # rest) zone_eras =
     (case lookup_zone_policy normalize_name zp era of
        Inl e \<Rightarrow> Inl e
      | Inr zpol \<Rightarrow> zone_eras_loop normalize_name zp rest (zone_eras @ [ZoneEra_of era zpol]))"

text \<open>
  The outer loop over \<open>zones_map.items()\<close>, keyed by \<open>zone_name\<close> as it stands. An
  exception leaves \<open>zone_infos\<close> with the zones stored so far.
\<close>

fun generate_infos_loop ::
  "(string \<Rightarrow> string) \<Rightarrow> ZonePolicyMap \<Rightarrow> ZonesMap \<Rightarrow> ZoneInfoMap
     \<Rightarrow> (error + unit) \<times> ZoneInfoMap" where
  "generate_infos_loop normalize_name zp [] zi = (Inr (), zi)"
| "generate_infos_loop normalize_name zp ((zone_name, eras') # rest) zi =
     (case zone_eras_loop normalize_name zp eras' [] of
        Inl e \<Rightarrow> (Inl e, zi)
      | Inr zone_eras \<Rightarrow>
          generate_infos_loop normalize_name zp rest
            (zi(zone_name \<mapsto> \<lparr>ZoneInfo.name = zone_name, eras = zone_eras\<rparr>)))"

definition generate_infos ::
  "(string \<Rightarrow> string) \<Rightarrow> InlineZoneInfo \<Rightarrow> (error + unit) \<times> InlineZoneInfo" where
  "generate_infos normalize_name self =
     (case generate_infos_loop normalize_name (zone_policies self) (zones_map self)
             (zone_infos self) of
        (r, zi) \<Rightarrow> (r, self\<lparr>zone_infos := zi\<rparr>))"

subsection \<open>\<open>generate_zonedb\<close>\<close>

text \<open>
  The result is the returned pair or the exception, together with the object as the call
  leaves it. The \<open>logging.info\<close> call touches none of this and is left out.
\<close>

definition generate_zonedb ::
  "(string \<Rightarrow> string) \<Rightarrow> InlineZoneInfo
     \<Rightarrow> (error + ZoneInfoMap \<times> ZonePolicyMap) \<times> InlineZoneInfo" where
  "generate_zonedb normalize_name self =
     (let self1 = generate_policies normalize_name self
      in case generate_infos normalize_name self1 of
           (Inl e, self2) \<Rightarrow> (Inl e, self2)
         | (Inr u, self2) \<Rightarrow> (Inr (zone_infos self2, zone_policies self2), self2))"


subsection \<open>A concrete \<open>normalize_name\<close> and example tables\<close>

text \<open>
  Modelled from the spec: the character map of \<open>normalize_name\<close>, which is not among
  the sources. The spec describes the key as "lowercase, punctuation preserved, path
  separators kept": an ASCII capital is lowered and every other character is kept.
\<close>

definition lower_char :: "char \<Rightarrow> char" where
  "lower_char c =
     (case map_of (zip ''ABCDEFGHIJKLMNOPQRSTUVWXYZ'' ''abcdefghijklmnopqrstuvwxyz'') c of
        None \<Rightarrow> c | Some l \<Rightarrow> l)"

text \<open>
  Modelled from the spec: \<open>normalize_name\<close> of \<open>acetimetools.transformer\<close>, which is
  not among the sources, as the spec describes it (lowercase, everything else kept). The
  general theorems below hold for every function in its place; this one serves the
  concrete inputs.
\<close>

definition normalize_name :: "string \<Rightarrow> string" where
  "normalize_name s = map lower_char s"

text \<open>
  Example inputs in the shape the compiler emits: the two US daylight-saving rules in
  force in 2000, and the eras of two zones.
\<close>

definition US_rules_raw :: "ZoneRuleRaw list" where
  "US_rules_raw =
     [\<lparr>ZoneRuleRaw.from_year = 1967, ZoneRuleRaw.to_year = 2006, ZoneRuleRaw.in_month = 10,
       ZoneRuleRaw.on_day_of_week = 7, ZoneRuleRaw.on_day_of_month = 0,
       at_seconds_truncated = 7200, ZoneRuleRaw.at_time_suffix = ''w'',
       delta_seconds_truncated = 0, ZoneRuleRaw.letter = ''S''\<rparr>,
      \<lparr>ZoneRuleRaw.from_year = 1987, ZoneRuleRaw.to_year = 2006, ZoneRuleRaw.in_month = 4,
       ZoneRuleRaw.on_day_of_week = 7, ZoneRuleRaw.on_day_of_month = 1,
       at_seconds_truncated = 7200, ZoneRuleRaw.at_time_suffix = ''w'',
       delta_seconds_truncated = 3600, ZoneRuleRaw.letter = ''D''\<rparr>]"

definition Los_Angeles_eras_raw :: "ZoneEraRaw list" where
  "Los_Angeles_eras_raw =
     [\<lparr>ZoneEraRaw.rules = ''US'', offset_seconds_truncated = - 28800,
       rules_delta_seconds_truncated = 0, ZoneEraRaw.format = ''P%sT'',
       ZoneEraRaw.until_year = 10000, ZoneEraRaw.until_month = 1, ZoneEraRaw.until_day = 1,
       until_seconds_truncated = 0, ZoneEraRaw.until_time_suffix = ''w''\<rparr>]"

definition UTC_eras_raw :: "ZoneEraRaw list" where
  "UTC_eras_raw =
     [\<lparr>ZoneEraRaw.rules = ''-'', offset_seconds_truncated = 0,
       rules_delta_seconds_truncated = 0, ZoneEraRaw.format = ''UTC'',
       ZoneEraRaw.until_year = 10000, ZoneEraRaw.until_month = 1, ZoneEraRaw.until_day = 1,
       until_seconds_truncated = 0, ZoneEraRaw.until_time_suffix = ''w''\<rparr>]"

definition example_policies_map :: PoliciesMap where
  "example_policies_map = [(''US'', US_rules_raw)]"

definition example_zones_map :: ZonesMap where
  "example_zones_map =
     [(''America/Los_Angeles'', Los_Angeles_eras_raw), (''Etc/UTC'', UTC_eras_raw)]"

text \<open>The era the example call generates for \<open>America/Los_Angeles\<close>.\<close>

definition Los_Angeles_eras :: "ZoneEra list" where
  "Los_Angeles_eras =
     [\<lparr>offset_seconds = - 28800,
       zone_policy = Policy \<lparr>ZonePolicy.name = ''US'',
                             ZonePolicy.rules = map ZoneRule_of US_rules_raw\<rparr>,
       rules_delta_seconds = 0, ZoneEra.format = ''P%sT'',
       ZoneEra.until_year = 10000, ZoneEra.until_month = 1, ZoneEra.until_day = 1,
       until_seconds = 0, ZoneEra.until_time_suffix = ''w''\<rparr>]"


definition example_zonedb ::
  "(error + ZoneInfoMap \<times> ZonePolicyMap) \<times> InlineZoneInfo" where
  "example_zonedb =
     generate_zonedb normalize_name (InlineZoneInfo_init example_zones_map example_policies_map)"

section \<open>The query surface of the transition engine\<close>

text \<open>
  The engine behind the date-time binding is not among the sources; its tests
  (\<open>tests/test_acetz.py\<close>) are. The definitions of this section follow the spec's
  description of the engine, each marked as such, and the tables hold the instants the
  tests assert. Instants are seconds from the Unix epoch.
\<close>

text \<open>
  Modelled from the spec: the \<open>ActiveTransition\<close> record of the data model, the value
  a query returns (the fold hint is read by no query and left out). The field for the
  abbreviation is called \<open>abbrev\<close>, as the tests print it.
\<close>

record ActiveTransition =
  start_instant :: int
  until_instant :: int
  total_offset :: int
  utc_offset :: int
  dst_offset :: int
  abbrev :: string

text \<open>Modelled from the spec: the error kinds the query surface returns.\<close>

datatype engine_error = NotFound | OutOfRange | InvalidCivilTime

text \<open>
  Modelled from the spec: the calendar primitives are named by the spec without their
  bodies. The leap years of the proleptic Gregorian calendar.
\<close>

definition is_leap_year :: "int \<Rightarrow> bool" where
  "is_leap_year y \<longleftrightarrow> (y mod 4 = 0 \<and> y mod 100 \<noteq> 0) \<or> y mod 400 = 0"

text \<open>Modelled from the spec: the length of a month, for calendar validation.\<close>

definition days_in_month :: "int \<Rightarrow> int \<Rightarrow> int" where
  "days_in_month y m =
     (if m = 2 then (if is_leap_year y then 29 else 28)
      else if m \<in> set [4, 6, 9, 11] then 30 else 31)"

text \<open>
  Modelled from the spec: \<open>days_from_epoch(y,m,d)\<close>, the day count of a proleptic
  Gregorian date from 1970-01-01, by the usual count over 400-year cycles of years that
  start in March.
\<close>

definition days_from_epoch :: "int \<Rightarrow> int \<Rightarrow> int \<Rightarrow> int" where
  "days_from_epoch y m d =
     (let y' = (if m \<le> 2 then y - 1 else y);
          era = y' div 400;
          yoe = y' - era * 400;
          doy = (153 * (if m > 2 then m - 3 else m + 9) + 2) div 5 + d - 1;
          doe = yoe * 365 + yoe div 4 - yoe div 100 + doy
      in era * 146097 + doe - 719468)"


text \<open>
  Modelled from the spec: calendar validation of the date components
  (\<open>InvalidCivilTime\<close> covers month 0, February 30 and the like).
\<close>

definition valid_civil_time :: "int \<Rightarrow> int \<Rightarrow> int \<Rightarrow> int \<Rightarrow> int \<Rightarrow> int \<Rightarrow> bool" where
  "valid_civil_time y m d H M S \<longleftrightarrow>
     1 \<le> m \<and> m \<le> 12 \<and> 1 \<le> d \<and> d \<le> days_in_month y m \<and>
     0 \<le> H \<and> H < 24 \<and> 0 \<le> M \<and> M < 60 \<and> 0 \<le> S \<and> S < 60"

text \<open>
  Modelled from the spec: the civil date-time read as a second count with no offset
  applied (the "candidate local instant").
\<close>

definition local_seconds :: "int \<Rightarrow> int \<Rightarrow> int \<Rightarrow> int \<Rightarrow> int \<Rightarrow> int \<Rightarrow> int" where
  "local_seconds y m d H M S = days_from_epoch y m d * 86400 + H * 3600 + M * 60 + S"

text \<open>
  Modelled from the spec: the zone handle of the registry. A link carries the name of its
  target next to its own display name; \<open>canonical_name\<close> follows the link.
\<close>

record ZoneHandle =
  zone_name :: string
  link_target :: "string option"



text \<open>
  Modelled from the spec: \<open>canonical_name()\<close>, which follows a link; the name of a
  zone that is no link is canonical already.
\<close>

definition canonical_name :: "ZoneHandle \<Rightarrow> string" where
  "canonical_name z = (case link_target z of None \<Rightarrow> zone_name z | Some t \<Rightarrow> t)"


text \<open>
  Modelled from the spec: a transition claims a local time when the instant obtained by
  subtracting its total offset lies in its \<open>[start, until)\<close>.
\<close>

definition claims :: "int \<Rightarrow> ActiveTransition \<Rightarrow> bool" where
  "claims L t \<longleftrightarrow> start_instant t \<le> L - total_offset t \<and> L - total_offset t < until_instant t"

text \<open>
  Modelled from the spec: the three outcomes of a local-time query. One claimant is
  returned whatever the fold; of two, the earlier for fold 0 and the later for fold 1;
  with none (a gap) the transition just before the gap for fold 0 and the one just after
  it for fold 1.
\<close>

definition resolve_local ::
  "ActiveTransition list \<Rightarrow> int \<Rightarrow> nat \<Rightarrow> engine_error + ActiveTransition" where
  "resolve_local ts L fold' =
     (case filter (claims L) ts of
        [] \<Rightarrow>
          (if fold' = 0
           then (case rev (filter (\<lambda>t. until_instant t \<le> L - total_offset t) ts) of
                   [] \<Rightarrow> Inl OutOfRange | t # _ \<Rightarrow> Inr t)
           else (case filter (\<lambda>t. L - total_offset t < start_instant t) ts of
                   [] \<Rightarrow> Inl OutOfRange | t # _ \<Rightarrow> Inr t))
      | [t] \<Rightarrow> Inr t
      | t1 # t2 # _ \<Rightarrow> Inr (if fold' = 0 then t1 else t2))"

text \<open>Modelled from the spec: \<open>info_for_local\<close>, on the list of the year asked for.\<close>

definition info_for_local ::
  "(string \<Rightarrow> int \<Rightarrow> ActiveTransition list) \<Rightarrow> ZoneHandle
     \<Rightarrow> int \<Rightarrow> int \<Rightarrow> int \<Rightarrow> int \<Rightarrow> int \<Rightarrow> int \<Rightarrow> nat \<Rightarrow> engine_error + ActiveTransition" where
  "info_for_local cache z y m d H M S fold' =
     (if \<not> valid_civil_time y m d H M S then Inl InvalidCivilTime
      else resolve_local (cache (canonical_name z) y) (local_seconds y m d H M S) fold')"

text \<open>
  Modelled from the spec: the epoch second of a local time under the transition found.
  The total offset is seconds from UT, so it is subtracted.
\<close>

definition epoch_of_local :: "int \<Rightarrow> ActiveTransition \<Rightarrow> int" where
  "epoch_of_local L t = L - total_offset t"

text \<open>
  Modelled from the spec: the three values the tests read from a date-time built from
  components, \<open>tzname()\<close>, \<open>utcoffset()\<close> and \<open>timestamp()\<close>: the abbreviation
  and the total offset of the transition found, and the epoch second.
\<close>

definition local_query ::
  "(string \<Rightarrow> int \<Rightarrow> ActiveTransition list) \<Rightarrow> ZoneHandle
     \<Rightarrow> int \<Rightarrow> int \<Rightarrow> int \<Rightarrow> int \<Rightarrow> int \<Rightarrow> int \<Rightarrow> nat \<Rightarrow> engine_error + string \<times> int \<times> int" where
  "local_query cache z y m d H M S fold' =
     (case info_for_local cache z y m d H M S fold' of
        Inl e \<Rightarrow> Inl e
      | Inr t \<Rightarrow> Inr (abbrev t, total_offset t, epoch_of_local (local_seconds y m d H M S) t))"

subsection \<open>The tables of the tests\<close>

text \<open>
  Modelled from the spec: \<open>SECONDS_SINCE_UNIX_EPOCH\<close> of \<open>acetime.common\<close>, the
  constant the tests add to their own second counts. The tests count from
  2000-01-01T00:00:00 UTC: \<open>test_after_spring_forward\<close> asserts that its count 7984800
  plus this constant is 2000-04-02 03:00:00 at seven hours behind UT.
\<close>

definition SECONDS_SINCE_UNIX_EPOCH :: int where
  "SECONDS_SINCE_UNIX_EPOCH = 946684800"

text \<open>
  Modelled from the spec: the transition list of America/Los_Angeles for the year 2000.
  The tests put the spring-forward at their second 7984800 (one second earlier is PST at
  -8 h, from then on PDT at -7 h with one hour of DST) and the fall-back at their second
  26125200 (one second earlier is PDT, from then on PST). The list is closed by the
  neighbouring US transitions, 1999-10-31 09:00 UT and 2001-04-01 10:00 UT.
\<close>

definition Los_Angeles_2000 :: "ActiveTransition list" where
  "Los_Angeles_2000 =
     [\<lparr>start_instant = local_seconds 1999 10 31 9 0 0,
       until_instant = 7984800 + SECONDS_SINCE_UNIX_EPOCH,
       total_offset = - 28800, utc_offset = - 28800, dst_offset = 0, abbrev = ''PST''\<rparr>,
      \<lparr>start_instant = 7984800 + SECONDS_SINCE_UNIX_EPOCH,
       until_instant = 26125200 + SECONDS_SINCE_UNIX_EPOCH,
       total_offset = - 25200, utc_offset = - 28800, dst_offset = 3600, abbrev = ''PDT''\<rparr>,
      \<lparr>start_instant = 26125200 + SECONDS_SINCE_UNIX_EPOCH,
       until_instant = local_seconds 2001 4 1 10 0 0,
       total_offset = - 28800, utc_offset = - 28800, dst_offset = 0, abbrev = ''PST''\<rparr>]"

text \<open>
  Modelled from the spec: the year cache, as far as the properties below read it.
\<close>

definition zone_transitions :: "string \<Rightarrow> int \<Rightarrow> ActiveTransition list" where
  "zone_transitions z y =
     (if z = ''America/Los_Angeles'' \<and> y = 2000 then Los_Angeles_2000 else [])"

text \<open>
  Modelled from the spec: the registry entry of the zone (\<open>islink()\<close> is false in
  \<open>TestLosAngeles.test_zone_info\<close>).
\<close>

definition ZONE_INFO_America_Los_Angeles :: ZoneHandle where
  "ZONE_INFO_America_Los_Angeles = \<lparr>zone_name = ''America/Los_Angeles'', link_target = None\<rparr>"

text \<open>
  Modelled from the spec: the registry entry of the link (\<open>islink()\<close> is true in
  \<open>TestUSPacific.test_zone_info\<close>, which follows it to America/Los_Angeles).
\<close>

definition ZONE_INFO_US_Pacific :: ZoneHandle where
  "ZONE_INFO_US_Pacific =
     \<lparr>zone_name = ''US/Pacific'', link_target = Some ''America/Los_Angeles''\<rparr>"


section \<open>Properties of the generated tables\<close>

lemma generate_policies_inputs:
  "zones_map (generate_policies nn self) = zones_map self \<and>
   policies_map (generate_policies nn self) = policies_map self"
  by (simp add: generate_policies_def)

lemma generate_infos_inputs:
  "zones_map (snd (generate_infos nn self)) = zones_map self \<and>
   policies_map (snd (generate_infos nn self)) = policies_map self \<and>
   zone_policies (snd (generate_infos nn self)) = zone_policies self"
  by (simp add: generate_infos_def split: prod.splits)

lemma generate_zonedb_state:
  "snd (generate_zonedb nn self) = snd (generate_infos nn (generate_policies nn self))"
  by (simp add: generate_zonedb_def Let_def split: prod.splits sum.splits)

text \<open>
  C5. \<open>generate_zonedb\<close> never mutates its inputs: whatever object it is called on, and
  whether it returns or raises, the \<open>zones_map\<close> and \<open>policies_map\<close> of the object after
  the call are the ones before it (same keys, same rules and eras, field by field).
\<close>

theorem generate_zonedb_inputs_unchanged:
  "zones_map (snd (generate_zonedb nn self)) = zones_map self \<and>
   policies_map (snd (generate_zonedb nn self)) = policies_map self"
  by (simp add: generate_zonedb_state generate_infos_inputs generate_policies_inputs)

subsection \<open>The loops\<close>

lemma policy_rules_loop_eq: "policy_rules_loop rs acc = acc @ map ZoneRule_of rs"
  by (induction rs arbitrary: acc) auto

lemma generate_policies_loop_append:
  "generate_policies_loop nn (xs @ ys) zp =
     generate_policies_loop nn ys (generate_policies_loop nn xs zp)"
  by (induction xs arbitrary: zp) (auto simp: Let_def)

lemma generate_policies_loop_other:
  "k \<notin> nn ` fst ` set pm \<Longrightarrow> generate_policies_loop nn pm zp k = zp k"
  by (induction pm arbitrary: zp) (auto simp: Let_def)

lemma generate_policies_loop_dom:
  "dom (generate_policies_loop nn pm zp) = dom zp \<union> nn ` fst ` set pm"
proof (induction pm arbitrary: zp)
  case Nil
  then show ?case by simp
next
  case (Cons e pm)
  obtain n rs where e: "e = (n, rs)" by (cases e)
  define r where "r = \<lparr>ZonePolicy.name = n, ZonePolicy.rules = policy_rules_loop rs []\<rparr>"
  have step: "generate_policies_loop nn (e # pm) zp =
                generate_policies_loop nn pm (zp(nn n \<mapsto> r))"
    by (simp add: e r_def Let_def)
  have "dom (generate_policies_loop nn pm (zp(nn n \<mapsto> r))) =
          dom (zp(nn n \<mapsto> r)) \<union> nn ` fst ` set pm"
    by (rule Cons.IH)
  then show ?case
    unfolding step by (simp add: e)
qed

lemma generate_policies_loop_stored:
  "generate_policies_loop nn pm zp k = Some p \<Longrightarrow>
     zp k = Some p \<or>
     (\<exists>n rs. (n, rs) \<in> set pm \<and> k = nn n \<and>
        p = \<lparr>ZonePolicy.name = n, ZonePolicy.rules = map ZoneRule_of rs\<rparr>)"
proof (induction pm arbitrary: zp)
  case Nil
  then show ?case by simp
next
  case (Cons e pm)
  obtain n rs where e: "e = (n, rs)" by (cases e)
  from Cons.prems have "generate_policies_loop nn pm
      (zp(nn n \<mapsto> \<lparr>ZonePolicy.name = n, ZonePolicy.rules = map ZoneRule_of rs\<rparr>)) k = Some p"
    by (simp add: e Let_def policy_rules_loop_eq)
  from Cons.IH [OF this] show ?case
    by (auto simp: e split: if_splits)
qed

lemma generate_policies_loop_last:
  assumes "pm = xs @ (n, rs) # ys" and "nn n \<notin> nn ` fst ` set ys"
  shows "generate_policies_loop nn pm zp (nn n) =
           Some \<lparr>ZonePolicy.name = n, ZonePolicy.rules = map ZoneRule_of rs\<rparr>"
  using assms
  by (simp add: generate_policies_loop_append generate_policies_loop_other Let_def
        policy_rules_loop_eq)

lemma lookup_zone_policy_cases:
  "lookup_zone_policy nn zp era =
     (if ZoneEraRaw.rules era = ''-'' \<or> ZoneEraRaw.rules era = '':''
      then Inr (Str (ZoneEraRaw.rules era))
      else case zp (nn (ZoneEraRaw.rules era)) of
             None \<Rightarrow> Inl (KeyError (nn (ZoneEraRaw.rules era)))
           | Some p \<Rightarrow> Inr (Policy p))"
  by (auto simp: lookup_zone_policy_def Let_def)



lemma zone_eras_loop_Inr:
  "zone_eras_loop nn zp es acc = Inr out \<Longrightarrow>
     \<exists>new. out = acc @ new \<and>
       list_all2 (\<lambda>era e. \<exists>v. lookup_zone_policy nn zp era = Inr v \<and> e = ZoneEra_of era v)
         es new"
proof (induction es arbitrary: acc)
  case Nil
  then show ?case by simp
next
  case (Cons era es)
  then obtain v where v: "lookup_zone_policy nn zp era = Inr v"
    and rest: "zone_eras_loop nn zp es (acc @ [ZoneEra_of era v]) = Inr out"
    by (auto split: sum.splits)
  from Cons.IH [OF rest] obtain new where
    "out = (acc @ [ZoneEra_of era v]) @ new"
    "list_all2 (\<lambda>era e. \<exists>v. lookup_zone_policy nn zp era = Inr v \<and> e = ZoneEra_of era v)
       es new"
    by blast
  with v show ?case
    by (intro exI [of _ "ZoneEra_of era v # new"]) simp
qed





lemma generate_infos_loop_stored:
  "fst (generate_infos_loop nn zp zm zi) = Inr () \<Longrightarrow>
   snd (generate_infos_loop nn zp zm zi) k = Some v \<Longrightarrow>
     zi k = Some v \<or>
     (\<exists>es out. (k, es) \<in> set zm \<and> zone_eras_loop nn zp es [] = Inr out \<and>
        v = \<lparr>ZoneInfo.name = k, eras = out\<rparr>)"
proof (induction zm arbitrary: zi)
  case Nil
  then show ?case by simp
next
  case (Cons e zm)
  obtain z es where e: "e = (z, es)" by (cases e)
  from Cons.prems(1) obtain out where out: "zone_eras_loop nn zp es [] = Inr out"
    by (cases "zone_eras_loop nn zp es []") (auto simp: e)
  define zi' where "zi' = zi(z \<mapsto> \<lparr>ZoneInfo.name = z, eras = out\<rparr>)"
  have step: "generate_infos_loop nn zp (e # zm) zi = generate_infos_loop nn zp zm zi'"
    by (simp add: e out zi'_def)
  from Cons.prems have "fst (generate_infos_loop nn zp zm zi') = Inr ()"
    and "snd (generate_infos_loop nn zp zm zi') k = Some v"
    by (simp_all add: step)
  from Cons.IH [OF this] show ?case
    using out by (auto simp: e zi'_def split: if_splits)
qed

lemma generate_infos_loop_dom:
  "fst (generate_infos_loop nn zp zm zi) = Inr () \<Longrightarrow>
     dom (snd (generate_infos_loop nn zp zm zi)) = dom zi \<union> fst ` set zm"
proof (induction zm arbitrary: zi)
  case Nil
  then show ?case by simp
next
  case (Cons e zm)
  obtain z es where e: "e = (z, es)" by (cases e)
  from Cons.prems(1) obtain out where out: "zone_eras_loop nn zp es [] = Inr out"
    by (cases "zone_eras_loop nn zp es []") (auto simp: e)
  define r where "r = \<lparr>ZoneInfo.name = z, eras = out\<rparr>"
  have step: "generate_infos_loop nn zp (e # zm) zi =
                generate_infos_loop nn zp zm (zi(z \<mapsto> r))"
    by (simp add: e out r_def)
  from Cons.prems have ok: "fst (generate_infos_loop nn zp zm (zi(z \<mapsto> r))) = Inr ()"
    by (simp add: step)
  have "dom (snd (generate_infos_loop nn zp zm (zi(z \<mapsto> r)))) =
          dom (zi(z \<mapsto> r)) \<union> fst ` set zm"
    by (rule Cons.IH) (rule ok)
  then show ?case
    unfolding step by (simp add: e)
qed

lemma generate_zonedb_init:
  "generate_zonedb nn (InlineZoneInfo_init zm pm) =
     (case generate_infos_loop nn (generate_policies_loop nn pm Map.empty) zm Map.empty of
        (r, zi) \<Rightarrow>
          (case r of Inl e \<Rightarrow> Inl e
                   | Inr u \<Rightarrow> Inr (zi, generate_policies_loop nn pm Map.empty),
           \<lparr>zones_map = zm, policies_map = pm, zone_infos = zi,
            zone_policies = generate_policies_loop nn pm Map.empty\<rparr>))"
  by (simp add: generate_zonedb_def generate_infos_def generate_policies_def
        InlineZoneInfo_init_def Let_def split: prod.splits sum.splits)

lemma generate_zonedb_Inr:
  assumes "fst (generate_zonedb nn (InlineZoneInfo_init zm pm)) = Inr (infos, pols)"
  shows "pols = generate_policies_loop nn pm Map.empty"
    and "fst (generate_infos_loop nn pols zm Map.empty) = Inr ()"
    and "infos = snd (generate_infos_loop nn pols zm Map.empty)"
  using assms
  by (auto simp: generate_zonedb_init split: prod.splits sum.splits)

lemma distinct_keys_value:
  "distinct (map fst zm) \<Longrightarrow> (z, a) \<in> set zm \<Longrightarrow> (z, b) \<in> set zm \<Longrightarrow> a = b"
  by (rule eq_key_imp_eq_value)

subsection \<open>The example call\<close>

lemmas example_defs = example_zones_map_def example_policies_map_def US_rules_raw_def
  Los_Angeles_eras_raw_def UTC_eras_raw_def Los_Angeles_eras_def

lemmas generate_defs = generate_zonedb_def generate_infos_def generate_policies_def
  InlineZoneInfo_init_def lookup_zone_policy_def ZoneEra_of_def ZoneRule_of_def Let_def

lemmas eval_defs = example_zonedb_def generate_defs example_defs normalize_name_def lower_char_def

lemma example_zonedb_returns:
  "fst example_zonedb = Inr (zone_infos (snd example_zonedb), zone_policies (snd example_zonedb))"
  by (simp add: eval_defs)

lemma example_zonedb_Los_Angeles:
  "zone_infos (snd example_zonedb) ''America/Los_Angeles'' =
     Some \<lparr>ZoneInfo.name = ''America/Los_Angeles'', eras = Los_Angeles_eras\<rparr>"
  by (simp add: eval_defs)

subsection \<open>The generated tables\<close>

text \<open>
  C1. Every era that \<open>generate_zonedb\<close> emits stems from an input era of the same zone
  at the same position, and its \<open>zone_policy\<close> is exactly one of three things: the
  string \<open>'-'\<close> when the input era's \<open>rules\<close> is \<open>'-'\<close>; the string \<open>':'\<close> when it is
  \<open>':'\<close>; otherwise the \<open>ZonePolicy\<close> stored in the returned policies map under
  \<open>normalize_name\<close> of that string. The three cases exclude one another, and no other
  value occurs.
\<close>

theorem zone_policy_of_emitted_era:
  assumes "fst (generate_zonedb nn (InlineZoneInfo_init zm pm)) = Inr (infos, pols)"
    and "infos z = Some zi"
  shows "\<exists>es. (z, es) \<in> set zm \<and>
           list_all2
             (\<lambda>era out.
                (ZoneEraRaw.rules era = ''-'' \<and> zone_policy out = Str ''-'') \<or>
                (ZoneEraRaw.rules era = '':'' \<and> zone_policy out = Str '':'') \<or>
                (ZoneEraRaw.rules era \<noteq> ''-'' \<and> ZoneEraRaw.rules era \<noteq> '':'' \<and>
                 (\<exists>p. pols (nn (ZoneEraRaw.rules era)) = Some p \<and> zone_policy out = Policy p)))
             es (eras zi)"
proof -
  note r = generate_zonedb_Inr [OF assms(1)]
  from assms(2) r(3) have "snd (generate_infos_loop nn pols zm Map.empty) z = Some zi"
    by simp
  from generate_infos_loop_stored [OF r(2) this]
  obtain es out where es: "(z, es) \<in> set zm"
    and out: "zone_eras_loop nn pols es [] = Inr out"
    and zi: "zi = \<lparr>ZoneInfo.name = z, eras = out\<rparr>"
    by auto
  from zone_eras_loop_Inr [OF out]
  have "list_all2 (\<lambda>era e. \<exists>v. lookup_zone_policy nn pols era = Inr v \<and> e = ZoneEra_of era v)
          es out"
    by simp
  then have "list_all2
             (\<lambda>era out.
                (ZoneEraRaw.rules era = ''-'' \<and> zone_policy out = Str ''-'') \<or>
                (ZoneEraRaw.rules era = '':'' \<and> zone_policy out = Str '':'') \<or>
                (ZoneEraRaw.rules era \<noteq> ''-'' \<and> ZoneEraRaw.rules era \<noteq> '':'' \<and>
                 (\<exists>p. pols (nn (ZoneEraRaw.rules era)) = Some p \<and> zone_policy out = Policy p)))
             es out"
  proof (rule list_all2_mono)
    fix era e
    assume "\<exists>v. lookup_zone_policy nn pols era = Inr v \<and> e = ZoneEra_of era v"
    then show "(ZoneEraRaw.rules era = ''-'' \<and> zone_policy e = Str ''-'') \<or>
                (ZoneEraRaw.rules era = '':'' \<and> zone_policy e = Str '':'') \<or>
                (ZoneEraRaw.rules era \<noteq> ''-'' \<and> ZoneEraRaw.rules era \<noteq> '':'' \<and>
                 (\<exists>p. pols (nn (ZoneEraRaw.rules era)) = Some p \<and> zone_policy e = Policy p))"
      by (auto simp: lookup_zone_policy_cases ZoneEra_of_def split: if_splits option.splits)
  qed
  with es zi show ?thesis by auto
qed

text \<open>The example call: the era of America/Los_Angeles refers to the policy \<open>US\<close>.\<close>

theorem zone_policy_of_emitted_era_witness:
  "fst example_zonedb = Inr (zone_infos (snd example_zonedb), zone_policies (snd example_zonedb)) \<and>
   zone_infos (snd example_zonedb) ''America/Los_Angeles'' =
     Some \<lparr>ZoneInfo.name = ''America/Los_Angeles'', eras = Los_Angeles_eras\<rparr> \<and>
   (\<exists>es. (''America/Los_Angeles'', es) \<in> set example_zones_map \<and>
      list_all2
        (\<lambda>era out.
           (ZoneEraRaw.rules era = ''-'' \<and> zone_policy out = Str ''-'') \<or>
           (ZoneEraRaw.rules era = '':'' \<and> zone_policy out = Str '':'') \<or>
           (ZoneEraRaw.rules era \<noteq> ''-'' \<and> ZoneEraRaw.rules era \<noteq> '':'' \<and>
            (\<exists>p. zone_policies (snd example_zonedb) (normalize_name (ZoneEraRaw.rules era))
                   = Some p \<and>
                 zone_policy out = Policy p)))
        es Los_Angeles_eras)"
proof -
  note h1 = example_zonedb_returns [unfolded example_zonedb_def]
  note h2 = example_zonedb_Los_Angeles [unfolded example_zonedb_def]
  from zone_policy_of_emitted_era [OF h1 h2] h1 h2 show ?thesis
    by (simp add: example_zonedb_def)
qed

text \<open>
  C2 (as the code has it). When \<open>generate_zonedb\<close> returns, the keys of the policies
  map are exactly the normalized policy names of \<open>policies_map\<close>, and the keys of the
  infos map are exactly the zone names of \<open>zones_map\<close>, as they stand: zone names are
  not normalized.
\<close>

theorem generated_map_keys:
  assumes "fst (generate_zonedb nn (InlineZoneInfo_init zm pm)) = Inr (infos, pols)"
  shows "dom pols = nn ` fst ` set pm \<and> dom infos = fst ` set zm"
proof -
  note r = generate_zonedb_Inr [OF assms]
  have "dom pols = nn ` fst ` set pm"
    by (simp add: r(1) generate_policies_loop_dom)
  moreover have "dom infos = fst ` set zm"
    using generate_infos_loop_dom [OF r(2)] by (simp add: r(3))
  ultimately show ?thesis ..
qed

theorem generated_map_keys_witness:
  "fst example_zonedb = Inr (zone_infos (snd example_zonedb), zone_policies (snd example_zonedb)) \<and>
   dom (zone_policies (snd example_zonedb)) = {''us''} \<and>
   dom (zone_infos (snd example_zonedb)) = {''America/Los_Angeles'', ''Etc/UTC''}"
proof -
  note h = example_zonedb_returns [unfolded example_zonedb_def]
  have "normalize_name ` fst ` set example_policies_map = {''us''}"
    by (simp add: example_defs normalize_name_def lower_char_def)
  moreover have "fst ` set example_zones_map = {''America/Los_Angeles'', ''Etc/UTC''}"
    by (simp add: example_defs)
  ultimately show ?thesis
    using generated_map_keys [OF h] h by (simp add: example_zonedb_def)
qed

text \<open>
  In the example call the zone \<open>America/Los_Angeles\<close> has no entry under its normalized
  name.
\<close>

theorem zone_infos_key_counterexample:
  "fst example_zonedb = Inr (zone_infos (snd example_zonedb), zone_policies (snd example_zonedb)) \<and>
   ''America/Los_Angeles'' \<in> fst ` set example_zones_map \<and>
   normalize_name ''America/Los_Angeles'' = ''america/los_angeles'' \<and>
   zone_infos (snd example_zonedb) (normalize_name ''America/Los_Angeles'') = None"
  by (simp add: eval_defs)

text \<open>
  C3. For every entry \<open>(n, rs)\<close> of \<open>policies_map\<close> (with the entries \<open>xs\<close> before it
  and \<open>ys\<close> after it), the \<open>ZonePolicy\<close> that the loop has stored under the
  normalized name once it has gone through \<open>xs\<close> and the entry carries the name \<open>n\<close>
  and has one output rule per input rule, in the input's order, with \<open>from_year\<close>,
  \<open>to_year\<close>, \<open>in_month\<close>, \<open>on_day_of_week\<close>, \<open>on_day_of_month\<close>,
  \<open>at_time_suffix\<close> and \<open>letter\<close> copied, \<open>at_seconds\<close> taken from
  \<open>at_seconds_truncated\<close> and \<open>delta_seconds\<close> from \<open>delta_seconds_truncated\<close>.
  Unless a later entry normalizes to the same key, it is the policy under the normalized
  name in the object after the call, and in the map the call returns.
\<close>

theorem generated_policy_rules:
  assumes "pm = xs @ (n, rs) # ys"
  shows "\<exists>p. generate_policies_loop nn (xs @ [(n, rs)]) Map.empty (nn n) = Some p \<and>
             ZonePolicy.name p = n \<and>
             list_all2
               (\<lambda>rule out.
                  ZoneRule.from_year out = ZoneRuleRaw.from_year rule \<and>
                  ZoneRule.to_year out = ZoneRuleRaw.to_year rule \<and>
                  ZoneRule.in_month out = ZoneRuleRaw.in_month rule \<and>
                  ZoneRule.on_day_of_week out = ZoneRuleRaw.on_day_of_week rule \<and>
                  ZoneRule.on_day_of_month out = ZoneRuleRaw.on_day_of_month rule \<and>
                  ZoneRule.at_time_suffix out = ZoneRuleRaw.at_time_suffix rule \<and>
                  ZoneRule.letter out = ZoneRuleRaw.letter rule \<and>
                  at_seconds out = at_seconds_truncated rule \<and>
                  delta_seconds out = delta_seconds_truncated rule)
               rs (ZonePolicy.rules p) \<and>
             (nn n \<notin> nn ` fst ` set ys \<longrightarrow>
                zone_policies (snd (generate_zonedb nn (InlineZoneInfo_init zm pm))) (nn n)
                  = Some p \<and>
                (\<forall>infos pols.
                   fst (generate_zonedb nn (InlineZoneInfo_init zm pm)) = Inr (infos, pols) \<longrightarrow>
                   pols (nn n) = Some p))"
proof -
  define p where "p = \<lparr>ZonePolicy.name = n, ZonePolicy.rules = map ZoneRule_of rs\<rparr>"
  have "generate_policies_loop nn (xs @ [(n, rs)]) Map.empty (nn n) = Some p"
    using generate_policies_loop_last [of "xs @ [(n, rs)]" xs n rs "[]" nn Map.empty]
    by (simp add: p_def)
  moreover have "ZonePolicy.name p = n"
    by (simp add: p_def)
  moreover have "list_all2
               (\<lambda>rule out.
                  ZoneRule.from_year out = ZoneRuleRaw.from_year rule \<and>
                  ZoneRule.to_year out = ZoneRuleRaw.to_year rule \<and>
                  ZoneRule.in_month out = ZoneRuleRaw.in_month rule \<and>
                  ZoneRule.on_day_of_week out = ZoneRuleRaw.on_day_of_week rule \<and>
                  ZoneRule.on_day_of_month out = ZoneRuleRaw.on_day_of_month rule \<and>
                  ZoneRule.at_time_suffix out = ZoneRuleRaw.at_time_suffix rule \<and>
                  ZoneRule.letter out = ZoneRuleRaw.letter rule \<and>
                  at_seconds out = at_seconds_truncated rule \<and>
                  delta_seconds out = delta_seconds_truncated rule)
               rs (ZonePolicy.rules p)"
    by (simp add: p_def list_all2_map2 ZoneRule_of_def list.rel_refl)
  moreover have "nn n \<notin> nn ` fst ` set ys \<longrightarrow>
     zone_policies (snd (generate_zonedb nn (InlineZoneInfo_init zm pm))) (nn n) = Some p \<and>
     (\<forall>infos pols.
        fst (generate_zonedb nn (InlineZoneInfo_init zm pm)) = Inr (infos, pols) \<longrightarrow>
        pols (nn n) = Some p)"
  proof
    assume "nn n \<notin> nn ` fst ` set ys"
    from generate_policies_loop_last [OF assms this, of Map.empty]
    have last: "generate_policies_loop nn pm Map.empty (nn n) = Some p"
      by (simp add: p_def)
    then have "zone_policies (snd (generate_zonedb nn (InlineZoneInfo_init zm pm))) (nn n)
        = Some p"
      by (simp add: generate_zonedb_init split: prod.splits)
    moreover have "\<forall>infos pols.
        fst (generate_zonedb nn (InlineZoneInfo_init zm pm)) = Inr (infos, pols) \<longrightarrow>
        pols (nn n) = Some p"
      using last generate_zonedb_Inr(1) by blast
    ultimately show "zone_policies (snd (generate_zonedb nn (InlineZoneInfo_init zm pm))) (nn n)
        = Some p \<and>
      (\<forall>infos pols.
        fst (generate_zonedb nn (InlineZoneInfo_init zm pm)) = Inr (infos, pols) \<longrightarrow>
        pols (nn n) = Some p)" ..
  qed
  ultimately show ?thesis by blast
qed

theorem generated_policy_rules_witness:
  "example_policies_map = [] @ (''US'', US_rules_raw) # [] \<and>
   normalize_name ''US'' \<notin> normalize_name ` fst ` set ([] :: (string \<times> ZoneRuleRaw list) list) \<and>
   (\<exists>p. zone_policies (snd example_zonedb) (normalize_name ''US'') = Some p \<and>
        ZonePolicy.name p = ''US'' \<and>
        list_all2
          (\<lambda>rule out.
             ZoneRule.from_year out = ZoneRuleRaw.from_year rule \<and>
             ZoneRule.to_year out = ZoneRuleRaw.to_year rule \<and>
             ZoneRule.in_month out = ZoneRuleRaw.in_month rule \<and>
             ZoneRule.on_day_of_week out = ZoneRuleRaw.on_day_of_week rule \<and>
             ZoneRule.on_day_of_month out = ZoneRuleRaw.on_day_of_month rule \<and>
             ZoneRule.at_time_suffix out = ZoneRuleRaw.at_time_suffix rule \<and>
             ZoneRule.letter out = ZoneRuleRaw.letter rule \<and>
             at_seconds out = at_seconds_truncated rule \<and>
             delta_seconds out = delta_seconds_truncated rule)
          US_rules_raw (ZonePolicy.rules p))"
proof -
  have h: "example_policies_map = [] @ (''US'', US_rules_raw) # []"
    by (simp add: example_policies_map_def)
  from generated_policy_rules [OF h, of normalize_name example_zones_map] h
  show ?thesis
    by (auto simp: example_zonedb_def)
qed

text \<open>
  C4 (as the code has it). For every entry \<open>(z, es)\<close> of \<open>zones_map\<close> (a dictionary:
  its keys are distinct), the returned infos map holds under \<open>z\<close> a \<open>ZoneInfo\<close> whose
  \<open>name\<close> is \<open>z\<close> and whose \<open>eras\<close> has one \<open>ZoneEra\<close> per input era, in input order,
  with \<open>offset_seconds\<close>, \<open>rules_delta_seconds\<close> and \<open>until_seconds\<close> taken from the
  \<open>_truncated\<close> keys and \<open>format\<close>, \<open>until_year\<close>, \<open>until_month\<close>, \<open>until_day\<close>
  and \<open>until_time_suffix\<close> copied. \<open>ZoneInfo\<close> has these two fields and no other:
  the generator has no notion of a link.
\<close>

theorem generated_zone_info:
  assumes "fst (generate_zonedb nn (InlineZoneInfo_init zm pm)) = Inr (infos, pols)"
    and "distinct (map fst zm)"
    and "(z, es) \<in> set zm"
  shows "\<exists>zi. infos z = Some zi \<and> ZoneInfo.name zi = z \<and>
           zi = \<lparr>ZoneInfo.name = z, eras = eras zi\<rparr> \<and>
           list_all2
             (\<lambda>era out.
                offset_seconds out = offset_seconds_truncated era \<and>
                rules_delta_seconds out = rules_delta_seconds_truncated era \<and>
                until_seconds out = until_seconds_truncated era \<and>
                ZoneEra.format out = ZoneEraRaw.format era \<and>
                ZoneEra.until_year out = ZoneEraRaw.until_year era \<and>
                ZoneEra.until_month out = ZoneEraRaw.until_month era \<and>
                ZoneEra.until_day out = ZoneEraRaw.until_day era \<and>
                ZoneEra.until_time_suffix out = ZoneEraRaw.until_time_suffix era)
             es (eras zi)"
proof -
  note r = generate_zonedb_Inr [OF assms(1)]
  from assms(3) have "z \<in> fst ` set zm" by force
  with generate_infos_loop_dom [OF r(2)] obtain zi where zi: "infos z = Some zi"
    by (auto simp: r(3))
  then have "snd (generate_infos_loop nn pols zm Map.empty) z = Some zi"
    by (simp add: r(3))
  from generate_infos_loop_stored [OF r(2) this]
  obtain es' out where es': "(z, es') \<in> set zm"
    and out: "zone_eras_loop nn pols es' [] = Inr out"
    and rec: "zi = \<lparr>ZoneInfo.name = z, eras = out\<rparr>"
    by auto
  from distinct_keys_value [OF assms(2) es' assms(3)] have same: "es' = es" .
  from zone_eras_loop_Inr [OF out]
  have "list_all2 (\<lambda>era e. \<exists>v. lookup_zone_policy nn pols era = Inr v \<and> e = ZoneEra_of era v)
          es out"
    by (simp add: same)
  then have "list_all2
             (\<lambda>era out.
                offset_seconds out = offset_seconds_truncated era \<and>
                rules_delta_seconds out = rules_delta_seconds_truncated era \<and>
                until_seconds out = until_seconds_truncated era \<and>
                ZoneEra.format out = ZoneEraRaw.format era \<and>
                ZoneEra.until_year out = ZoneEraRaw.until_year era \<and>
                ZoneEra.until_month out = ZoneEraRaw.until_month era \<and>
                ZoneEra.until_day out = ZoneEraRaw.until_day era \<and>
                ZoneEra.until_time_suffix out = ZoneEraRaw.until_time_suffix era)
             es out"
    by (rule list_all2_mono) (auto simp: ZoneEra_of_def)
  with zi rec show ?thesis by simp
qed

theorem generated_zone_info_witness:
  "fst example_zonedb = Inr (zone_infos (snd example_zonedb), zone_policies (snd example_zonedb)) \<and>
   distinct (map fst example_zones_map) \<and>
   (''America/Los_Angeles'', Los_Angeles_eras_raw) \<in> set example_zones_map \<and>
   (\<exists>zi. zone_infos (snd example_zonedb) ''America/Los_Angeles'' = Some zi \<and>
         ZoneInfo.name zi = ''America/Los_Angeles'' \<and>
         zi = \<lparr>ZoneInfo.name = ''America/Los_Angeles'', eras = eras zi\<rparr> \<and>
         list_all2
             (\<lambda>era out.
                offset_seconds out = offset_seconds_truncated era \<and>
                rules_delta_seconds out = rules_delta_seconds_truncated era \<and>
                until_seconds out = until_seconds_truncated era \<and>
                ZoneEra.format out = ZoneEraRaw.format era \<and>
                ZoneEra.until_year out = ZoneEraRaw.until_year era \<and>
                ZoneEra.until_month out = ZoneEraRaw.until_month era \<and>
                ZoneEra.until_day out = ZoneEraRaw.until_day era \<and>
                ZoneEra.until_time_suffix out = ZoneEraRaw.until_time_suffix era)
             Los_Angeles_eras_raw (eras zi))"
proof -
  note h1 = example_zonedb_returns [unfolded example_zonedb_def]
  have h2: "distinct (map fst example_zones_map)"
    by (simp add: example_zones_map_def)
  have h3: "(''America/Los_Angeles'', Los_Angeles_eras_raw) \<in> set example_zones_map"
    by (simp add: example_zones_map_def)
  from generated_zone_info [OF h1 h2 h3] h1 h2 h3 show ?thesis
    by (simp add: example_zonedb_def)
qed

text \<open>
  A zones table that lists \<open>US/Pacific\<close> yields a \<open>ZoneInfo\<close> made of the name and
  the eras it was given, and nothing that points to another zone.
\<close>

theorem zone_info_fields_counterexample:
  "fst (generate_zonedb normalize_name
          (InlineZoneInfo_init [(''US/Pacific'', Los_Angeles_eras_raw)] example_policies_map)) =
     Inr ([''US/Pacific'' \<mapsto> \<lparr>ZoneInfo.name = ''US/Pacific'', eras = Los_Angeles_eras\<rparr>],
          [''us'' \<mapsto> \<lparr>ZonePolicy.name = ''US'',
                       ZonePolicy.rules = map ZoneRule_of US_rules_raw\<rparr>])"
  by (simp add: eval_defs)



text \<open>
  C10. Normalization leaves the stored names alone. When \<open>generate_zonedb\<close> returns,
  every policy in the policies map carries the name of a policy of \<open>policies_map\<close> as
  it was written, and sits under the normalization of that name; every policy name has
  an entry under its normalized name, which carries that very name when no other policy
  name normalizes to the same key; and every \<open>ZoneInfo\<close> carries the key of
  \<open>zones_map\<close> it is stored under, for every zone name.
\<close>

theorem display_names_kept:
  assumes "fst (generate_zonedb nn (InlineZoneInfo_init zm pm)) = Inr (infos, pols)"
  shows "(\<forall>k p. pols k = Some p \<longrightarrow>
            ZonePolicy.name p \<in> fst ` set pm \<and> k = nn (ZonePolicy.name p)) \<and>
         (\<forall>n \<in> fst ` set pm.
            \<exists>p. pols (nn n) = Some p \<and> nn (ZonePolicy.name p) = nn n \<and>
                ((\<forall>n' \<in> fst ` set pm. nn n' = nn n \<longrightarrow> n' = n) \<longrightarrow> ZonePolicy.name p = n)) \<and>
         (\<forall>z \<in> fst ` set zm. \<exists>zi. infos z = Some zi \<and> ZoneInfo.name zi = z) \<and>
         (\<forall>z zi. infos z = Some zi \<longrightarrow> ZoneInfo.name zi = z)"
proof -
  note r = generate_zonedb_Inr [OF assms]
  have a: "\<forall>k p. pols k = Some p \<longrightarrow>
            ZonePolicy.name p \<in> fst ` set pm \<and> k = nn (ZonePolicy.name p)"
  proof (intro allI impI)
    fix k p
    assume "pols k = Some p"
    then have "generate_policies_loop nn pm Map.empty k = Some p"
      by (simp add: r(1))
    from generate_policies_loop_stored [OF this]
    show "ZonePolicy.name p \<in> fst ` set pm \<and> k = nn (ZonePolicy.name p)"
      by force
  qed
  have b: "\<forall>n \<in> fst ` set pm.
            \<exists>p. pols (nn n) = Some p \<and> nn (ZonePolicy.name p) = nn n \<and>
                ((\<forall>n' \<in> fst ` set pm. nn n' = nn n \<longrightarrow> n' = n) \<longrightarrow> ZonePolicy.name p = n)"
  proof
    fix n
    assume "n \<in> fst ` set pm"
    then have "nn n \<in> dom pols"
      by (simp add: r(1) generate_policies_loop_dom)
    then obtain p where p: "pols (nn n) = Some p" by blast
    with a have "ZonePolicy.name p \<in> fst ` set pm" and "nn n = nn (ZonePolicy.name p)"
      by blast+
    with p show "\<exists>p. pols (nn n) = Some p \<and> nn (ZonePolicy.name p) = nn n \<and>
                ((\<forall>n' \<in> fst ` set pm. nn n' = nn n \<longrightarrow> n' = n) \<longrightarrow> ZonePolicy.name p = n)"
      by auto
  qed
  have d: "\<forall>z zi. infos z = Some zi \<longrightarrow> ZoneInfo.name zi = z"
  proof (intro allI impI)
    fix z zi
    assume "infos z = Some zi"
    then have "snd (generate_infos_loop nn pols zm Map.empty) z = Some zi"
      by (simp add: r(3))
    from generate_infos_loop_stored [OF r(2) this]
    show "ZoneInfo.name zi = z" by auto
  qed
  have c: "\<forall>z \<in> fst ` set zm. \<exists>zi. infos z = Some zi \<and> ZoneInfo.name zi = z"
  proof
    fix z
    assume "z \<in> fst ` set zm"
    with generate_infos_loop_dom [OF r(2)] obtain zi where "infos z = Some zi"
      by (auto simp: r(3))
    with d show "\<exists>zi. infos z = Some zi \<and> ZoneInfo.name zi = z" by blast
  qed
  from a b c d show ?thesis by blast
qed

theorem display_names_kept_witness:
  "fst example_zonedb = Inr (zone_infos (snd example_zonedb), zone_policies (snd example_zonedb)) \<and>
   (\<exists>p. zone_policies (snd example_zonedb) ''us'' = Some p \<and> ZonePolicy.name p = ''US'') \<and>
   (\<exists>zi. zone_infos (snd example_zonedb) ''America/Los_Angeles'' = Some zi \<and>
         ZoneInfo.name zi = ''America/Los_Angeles'')"
proof -
  note h = example_zonedb_returns [unfolded example_zonedb_def]
  note t = display_names_kept [OF h, folded example_zonedb_def]
  have us: "''US'' \<in> fst ` set example_policies_map"
    and only: "\<forall>n' \<in> fst ` set example_policies_map.
                 normalize_name n' = normalize_name ''US'' \<longrightarrow> n' = ''US''"
    and key: "normalize_name ''US'' = ''us''"
    by (simp_all add: example_policies_map_def normalize_name_def lower_char_def)
  from t [THEN conjunct2, THEN conjunct1, THEN bspec, OF us] only key
  have p: "\<exists>p. zone_policies (snd example_zonedb) ''us'' = Some p \<and> ZonePolicy.name p = ''US''"
    by auto
  have la: "''America/Los_Angeles'' \<in> fst ` set example_zones_map"
    by (simp add: example_zones_map_def)
  note z = t [THEN conjunct2, THEN conjunct2, THEN conjunct1, THEN bspec, OF la]
  from p z example_zonedb_returns show ?thesis by blast
qed

section \<open>Properties of the query surface\<close>

subsection \<open>Evaluating the tables\<close>

lemma test_instants:
  "7984800 + SECONDS_SINCE_UNIX_EPOCH = local_seconds 2000 4 2 3 0 0 - (- 25200)"
  "26125200 + SECONDS_SINCE_UNIX_EPOCH = local_seconds 2000 10 29 1 0 0 - (- 28800)"
  "SECONDS_SINCE_UNIX_EPOCH = local_seconds 2000 1 1 0 0 0"
  by (simp_all add: SECONDS_SINCE_UNIX_EPOCH_def local_seconds_def days_from_epoch_def Let_def)

lemma Los_Angeles_2000_instants:
  "Los_Angeles_2000 =
     [\<lparr>start_instant = 941360400, until_instant = 954669600,
       total_offset = - 28800, utc_offset = - 28800, dst_offset = 0, abbrev = ''PST''\<rparr>,
      \<lparr>start_instant = 954669600, until_instant = 972810000,
       total_offset = - 25200, utc_offset = - 28800, dst_offset = 3600, abbrev = ''PDT''\<rparr>,
      \<lparr>start_instant = 972810000, until_instant = 986119200,
       total_offset = - 28800, utc_offset = - 28800, dst_offset = 0, abbrev = ''PST''\<rparr>]"
  by (simp add: Los_Angeles_2000_def SECONDS_SINCE_UNIX_EPOCH_def local_seconds_def
        days_from_epoch_def Let_def)

lemma canonical_names:
  "canonical_name ZONE_INFO_US_Pacific = ''America/Los_Angeles''"
  "canonical_name ZONE_INFO_America_Los_Angeles = ''America/Los_Angeles''"
  by (simp_all add: canonical_name_def ZONE_INFO_US_Pacific_def
        ZONE_INFO_America_Los_Angeles_def)


lemma table_Los_Angeles:
  "zone_transitions (canonical_name ZONE_INFO_America_Los_Angeles) 2000 = Los_Angeles_2000"
  by (simp add: zone_transitions_def canonical_names)






text \<open>
  The tables give what the other assertions of the tests expect: the literal Unix second
  of \<open>test_constructor\<close>, and both sides of the spring-forward and of the fall-back.
\<close>

lemma tests_agree:
  "local_query zone_transitions ZONE_INFO_America_Los_Angeles 2000 1 2 3 4 5 0
     = Inr (''PST'', - 28800, 946811045)"
  "local_query zone_transitions ZONE_INFO_America_Los_Angeles 2000 4 2 1 59 59 0
     = Inr (''PST'', - 28800, 7984799 + SECONDS_SINCE_UNIX_EPOCH)"
  "local_query zone_transitions ZONE_INFO_America_Los_Angeles 2000 4 2 3 0 0 0
     = Inr (''PDT'', - 25200, 7984800 + SECONDS_SINCE_UNIX_EPOCH)"
  "local_query zone_transitions ZONE_INFO_America_Los_Angeles 2000 10 29 1 0 0 (Suc 0)
     = Inr (''PST'', - 28800, 26125200 + SECONDS_SINCE_UNIX_EPOCH)"
  "local_query zone_transitions ZONE_INFO_America_Los_Angeles 2000 10 29 2 0 0 0
     = Inr (''PST'', - 28800, 26125200 + 3600 + SECONDS_SINCE_UNIX_EPOCH)"
  by (simp_all add: local_query_def info_for_local_def valid_civil_time_def
        days_in_month_def table_Los_Angeles local_seconds_def days_from_epoch_def
        resolve_local_def claims_def Los_Angeles_2000_instants epoch_of_local_def
        SECONDS_SINCE_UNIX_EPOCH_def)


subsection \<open>Queries\<close>






end
